theory Spec2Isabelle
  imports Main "HOL-Library.Signed_Division"
begin

section \<open>The IRLS visualizer page (src/pages/statistics/GLM_IRLS_Visualizer.js)\<close>

text \<open>
  The file holds one React component, \<open>GLMVisualizer\<close>, with two helpers: the hook
  \<open>useKaTeX\<close>, which injects the KaTeX stylesheet and script into \<open>document.head\<close>,
  and the component \<open>Latex\<close>, which asks KaTeX to typeset a string into a span.
  React state becomes a record that the handlers take and return; the part of the
  browser the code touches (\<open>window.katex\<close>, \<open>document.head\<close>) is a second record;
  an exception thrown by \<open>window.katex.render\<close> is the \<open>Inl\<close> of a sum.
\<close>

subsection \<open>Strings\<close>

text \<open>
  A JavaScript string is a \<open>string\<close>. Text outside ASCII (the Japanese titles and
  descriptions) is given by its UTF-8 bytes; a backslash is written \<open>bslash\<close>.
  No property below depends on the length of such a text.
\<close>

definition bslash :: char where
  "bslash = CHR 0x5C"

definition utf8 :: "nat list \<Rightarrow> string" where
  "utf8 bytes = map char_of bytes"

subsection \<open>The step descriptors\<close>

text \<open>The icon components imported from lucide-react.\<close>

datatype lucide = ArrowRight | RefreshCw | Calculator | TrendingUp | Scale | CheckCircle

text \<open>An icon element \<open><Calculator className="..." />\<close>: the component and its class.\<close>

datatype jsx_icon = Icon lucide string

record step =
  id_step :: int
  title :: string
  icon :: jsx_icon
  desc :: string
  math :: string

text \<open>The array literal \<open>steps\<close> of \<open>GLMVisualizer\<close> (lines 67 to 103).\<close>

definition steps :: "step list" where
  "steps =
     [\<lparr>id_step = 1,
       title = utf8 [0xE5, 0x88, 0x9D, 0xE6, 0x9C, 0x9F, 0xE5, 0x8C, 0x96] @ '' (Initialization)'',
       icon = Icon Calculator ''w-6 h-6 text-blue-500'',
       desc = utf8 [0xE3, 0x83, 0x91, 0xE3, 0x83, 0xA9, 0xE3, 0x83, 0xA1, 0xE3, 0x83, 0xBC, 0xE3,
          0x82, 0xBF, 0xE3, 0x81, 0xAE, 0xE5, 0x88, 0x9D, 0xE6, 0x9C, 0x9F, 0xE5, 0x80, 0xA4,
          0xE3, 0x82, 0x92, 0xE8, 0xA8, 0xAD, 0xE5, 0xAE, 0x9A, 0xE3, 0x81, 0x97, 0xE3, 0x81,
          0xBE, 0xE3, 0x81, 0x99, 0xE3, 0x80, 0x82],
       math = [bslash] @ ''beta^{(0)}''\<rparr>,
      \<lparr>id_step = 2,
       title = utf8 [0xE7, 0xB7, 0x9A, 0xE5, 0xBD, 0xA2, 0xE4, 0xBA, 0x88, 0xE6, 0xB8, 0xAC, 0xE5,
          0xAD, 0x90] @ '' & '' @ utf8 [0xE5, 0xB9, 0xB3, 0xE5, 0x9D, 0x87] @ '' (Predict)'',
       icon = Icon TrendingUp ''w-6 h-6 text-indigo-500'',
       desc = utf8 [0xE7, 0x8F, 0xBE, 0xE5, 0x9C, 0xA8, 0xE3, 0x81, 0xAE, 0xE3, 0x83, 0x91, 0xE3,
          0x83, 0xA9, 0xE3, 0x83, 0xA1, 0xE3, 0x83, 0xBC, 0xE3, 0x82, 0xBF, 0xE3, 0x81, 0xA7,
          0xE4, 0xBA, 0x88, 0xE6, 0xB8, 0xAC, 0xE5, 0x80, 0xA4, 0xE3, 0x82, 0x92, 0xE8, 0xA8,
          0x88, 0xE7, 0xAE, 0x97, 0xE3, 0x81, 0x97, 0xE3, 0x81, 0xBE, 0xE3, 0x81, 0x99, 0xE3,
          0x80, 0x82],
       math = [bslash] @ ''eta = X'' @ [bslash] @ ''beta, '' @ [bslash] @ ''quad '' @ [bslash] @
          ''mu = g^{-1}('' @ [bslash] @ ''eta)''\<rparr>,
      \<lparr>id_step = 3,
       title = utf8 [0xE4, 0xBD, 0x9C, 0xE5, 0x8B, 0x95, 0xE5, 0xA4, 0x89, 0xE6, 0x95, 0xB0] @
          '' & '' @ utf8 [0xE9, 0x87, 0x8D, 0xE3, 0x81, 0xBF] @ '' (Adjust)'',
       icon = Icon Scale ''w-6 h-6 text-amber-500'',
       desc = utf8 [0xE5, 0xB1, 0x80, 0xE6, 0x89, 0x80, 0xE7, 0x9A, 0x84, 0xE3, 0x81, 0xAA, 0xE7,
          0x9B, 0xB4, 0xE7, 0xB7, 0x9A, 0xE8, 0xBF, 0x91, 0xE4, 0xBC, 0xBC, 0xE3, 0x81, 0xAE,
          0xE3, 0x81, 0x9F, 0xE3, 0x82, 0x81, 0xE3, 0x81, 0xAB, 0xE3, 0x80, 0x81, 0xE3, 0x82,
          0xBF, 0xE3, 0x83, 0xBC, 0xE3, 0x82, 0xB2, 0xE3, 0x83, 0x83, 0xE3, 0x83, 0x88, 0xE5,
          0xA4, 0x89, 0xE6, 0x95, 0xB0] @ ''(z)'' @ utf8 [0xE3, 0x81, 0xA8, 0xE9, 0x87, 0x8D,
          0xE3, 0x81, 0xBF] @ ''(W)'' @ utf8 [0xE3, 0x82, 0x92, 0xE8, 0xA8, 0x88, 0xE7, 0xAE,
          0x97, 0xE3, 0x81, 0x97, 0xE3, 0x81, 0xBE, 0xE3, 0x81, 0x99, 0xE3, 0x80, 0x82],
       math = ''z, '' @ [bslash] @ ''quad W''\<rparr>,
      \<lparr>id_step = 4,
       title = ''WLS'' @ utf8 [0xE3, 0x81, 0xAB, 0xE3, 0x82, 0x88, 0xE3, 0x82, 0x8B, 0xE6, 0x9B, 0xB4,
          0xE6, 0x96, 0xB0] @ '' (Update)'',
       icon = Icon RefreshCw ''w-6 h-6 text-emerald-500'',
       desc = utf8 [0xE9, 0x87, 0x8D, 0xE3, 0x81, 0xBF, 0xE3, 0x81, 0xA4, 0xE3, 0x81, 0x8D, 0xE6,
          0x9C, 0x80, 0xE5, 0xB0, 0x8F, 0xE4, 0xBA, 0x8C, 0xE4, 0xB9, 0x97, 0xE6, 0xB3, 0x95] @
          ''(WLS)'' @ utf8 [0xE3, 0x82, 0x92, 0xE8, 0xA7, 0xA3, 0xE3, 0x81, 0x84, 0xE3, 0x81,
          0xA6, 0xE3, 0x80, 0x81, 0xE3, 0x83, 0x91, 0xE3, 0x83, 0xA9, 0xE3, 0x83, 0xA1, 0xE3,
          0x83, 0xBC, 0xE3, 0x82, 0xBF, 0xE3, 0x82, 0x92, 0xE6, 0x9B, 0xB4, 0xE6, 0x96, 0xB0,
          0xE3, 0x81, 0x97, 0xE3, 0x81, 0xBE, 0xE3, 0x81, 0x99, 0xE3, 0x80, 0x82],
       math = [bslash] @ ''beta^{(new)} = (X^T W X)^{-1} X^T W z''\<rparr>,
      \<lparr>id_step = 5,
       title = utf8 [0xE5, 0x8F, 0x8E, 0xE6, 0x9D, 0x9F, 0xE5, 0x88, 0xA4, 0xE5, 0xAE, 0x9A] @
          '' (Check)'',
       icon = Icon CheckCircle ''w-6 h-6 text-purple-500'',
       desc = utf8 [0xE3, 0x83, 0x91, 0xE3, 0x83, 0xA9, 0xE3, 0x83, 0xA1, 0xE3, 0x83, 0xBC, 0xE3,
          0x82, 0xBF, 0xE3, 0x81, 0xAE, 0xE5, 0xA4, 0x89, 0xE5, 0x8C, 0x96, 0xE3, 0x81, 0x8C,
          0xE5, 0x8D, 0x81, 0xE5, 0x88, 0x86, 0xE3, 0x81, 0xAB, 0xE5, 0xB0, 0x8F, 0xE3, 0x81,
          0x95, 0xE3, 0x81, 0x91, 0xE3, 0x82, 0x8C, 0xE3, 0x81, 0xB0, 0xE7, 0xB5, 0x82, 0xE4,
          0xBA, 0x86, 0xE3, 0x80, 0x82, 0xE3, 0x81, 0x9D, 0xE3, 0x81, 0x86, 0xE3, 0x81, 0xA7,
          0xE3, 0x81, 0xAA, 0xE3, 0x81, 0x91, 0xE3, 0x82, 0x8C, 0xE3, 0x81, 0xB0, 0xE3, 0x82,
          0xB9, 0xE3, 0x83, 0x86, 0xE3, 0x83, 0x83, 0xE3, 0x83, 0x97] @ ''2'' @ utf8 [0xE3, 0x81,
          0xB8, 0xE6, 0x88, 0xBB, 0xE3, 0x82, 0x8A, 0xE3, 0x81, 0xBE, 0xE3, 0x81, 0x99, 0xE3,
          0x80, 0x82],
       math = ''|'' @ [bslash] @ ''beta^{(new)} - '' @ [bslash] @ ''beta^{(old)}| < '' @ [bslash] @
          ''epsilon''\<rparr>]"

subsection \<open>Component state and its handlers\<close>

text \<open>
  \<open>GLMVisualizer\<close> has two pieces of hook state: \<open>activeStep\<close>, from
  \<open>useState(0)\<close>, and the flag \<open>isLoaded\<close> that \<open>useKaTeX\<close> keeps with
  \<open>useState(false)\<close> and returns to the component as \<open>isKaTeXLoaded\<close>.
  \<open>activeStep\<close> is a JavaScript number that only ever holds small integers, so it
  is an \<open>int\<close>.
\<close>

record visualizer =
  activeStep :: int
  isKaTeXLoaded :: bool

definition GLMVisualizer_init :: visualizer where
  "GLMVisualizer_init = \<lparr>activeStep = 0, isKaTeXLoaded = False\<rparr>"

definition setActiveStep :: "int \<Rightarrow> visualizer \<Rightarrow> visualizer" where
  "setActiveStep index v = v\<lparr>activeStep := index\<rparr>"

definition setIsLoaded :: "bool \<Rightarrow> visualizer \<Rightarrow> visualizer" where
  "setIsLoaded b v = v\<lparr>isKaTeXLoaded := b\<rparr>"

text \<open>
  JavaScript's \<open>%\<close> on integers takes the sign of the dividend: it is the truncating
  remainder \<open>smod\<close>, not HOL's \<open>mod\<close>. (With a zero divisor it is NaN; the only
  divisor here is \<open>steps.length\<close>.)
\<close>

definition js_rem :: "int \<Rightarrow> int \<Rightarrow> int" where
  "js_rem a b = a smod b"

text \<open>\<open>setActiveStep((prev) => (prev + 1) % steps.length)\<close>\<close>

definition nextStep :: "visualizer \<Rightarrow> visualizer" where
  "nextStep v = setActiveStep (js_rem (activeStep v + 1) (int (length steps))) v"

subsection \<open>What the component renders\<close>

text \<open>The props of a \<open>Latex\<close> element.\<close>

record latex_props =
  children :: string
  displayMode :: bool
  isLoaded :: bool

text \<open>
  One row of the workflow diagram, as \<open>steps.map((step, index) => ...)\<close> builds it:
  its key, its click handler \<open>() => setActiveStep(index)\<close>, whether it is drawn as
  the active row (\<open>activeStep === index\<close>), the descriptor it shows and the props of
  its \<open>Latex\<close> element.
\<close>

record step_row =
  row_key :: int
  row_onClick :: "visualizer \<Rightarrow> visualizer"
  row_active :: bool
  row_step :: step
  row_latex :: latex_props

definition step_row_of :: "visualizer \<Rightarrow> nat \<times> step \<Rightarrow> step_row" where
  "step_row_of v = (\<lambda>(index, step).
     \<lparr>row_key = id_step step,
      row_onClick = setActiveStep (int index),
      row_active = (activeStep v = int index),
      row_step = step,
      row_latex = \<lparr>children = math step, displayMode = False, isLoaded = isKaTeXLoaded v\<rparr>\<rparr>)"

definition GLMVisualizer_rows :: "visualizer \<Rightarrow> step_row list" where
  "GLMVisualizer_rows v = map (step_row_of v) (enumerate 0 steps)"

text \<open>The button under the diagram: \<open>onClick={nextStep}\<close>.\<close>

definition button_onClick :: "visualizer \<Rightarrow> visualizer" where
  "button_onClick = nextStep"

text \<open>
  The states the two click handlers can produce from the initial one: a click on the
  button, or a click on one of the rows that the current state renders.
\<close>

inductive reachable :: "visualizer \<Rightarrow> bool" where
  init: "reachable GLMVisualizer_init"
| click_next: "reachable v \<Longrightarrow> reachable (button_onClick v)"
| click_row: "reachable v \<Longrightarrow> row \<in> set (GLMVisualizer_rows v) \<Longrightarrow> reachable (row_onClick row v)"

subsection \<open>Loading KaTeX\<close>

text \<open>
  The two elements \<open>useKaTeX\<close> creates, with the properties it assigns. The script's
  \<open>onload\<close> handler is \<open>() => setIsLoaded(true)\<close>.
\<close>

datatype element =
    is_LinkEl: LinkEl (rel: string) (href: string) (integrity: string) (crossOrigin: string)
  | is_ScriptEl: ScriptEl (src: string) (integrity: string) (crossOrigin: string)
      (onload: "visualizer \<Rightarrow> visualizer")

text \<open>
  A thrown JavaScript value, and \<open>window.katex.render\<close>: given the string and the
  display mode it either throws or writes markup into the container. What it does
  is KaTeX's business, so it is a parameter.
\<close>

datatype js_error = Error string

type_synonym katex_render = "string \<Rightarrow> bool \<Rightarrow> js_error + string"

record browser =
  window_katex :: "katex_render option"
  document_head :: "element list"

text \<open>The effect of \<open>useKaTeX\<close> (lines 10 to 35); its dependency list is empty, so React
  runs it after each mount of the component.\<close>

definition useKaTeX_effect :: "browser \<Rightarrow> visualizer \<Rightarrow> browser \<times> visualizer" where
  "useKaTeX_effect w v =
     (if window_katex w \<noteq> None then (w, setIsLoaded True v)
      else
        let link = LinkEl ''stylesheet''
                     ''https://cdn.jsdelivr.net/npm/katex@0.16.9/dist/katex.min.css''
                     ''sha384-n8MVd4RsNIU0tAv4ct0nTaAbDJwPJzDEaqSD1odI+WdtXRGWt2kTvGFasHpSy3SV''
                     ''anonymous'';
            w1 = w\<lparr>document_head := document_head w @ [link]\<rparr>;
            script = ScriptEl
                     ''https://cdn.jsdelivr.net/npm/katex@0.16.9/dist/katex.min.js''
                     ''sha384-XjKyOOlGwcjNTAIQHIpgOno0Hl1YQqzUOEleOLALmuqehneUG+vnGctmUb0ZY0l8''
                     ''anonymous''
                     (setIsLoaded True);
            w2 = w1\<lparr>document_head := document_head w1 @ [script]\<rparr>
        in (w2, v))"

text \<open>Mounting the component: fresh hook state, then the effect.\<close>

definition GLMVisualizer_mount :: "browser \<Rightarrow> browser \<times> visualizer" where
  "GLMVisualizer_mount w = useKaTeX_effect w GLMVisualizer_init"

subsection \<open>The Latex component\<close>

text \<open>
  What the span holds: the text React put there (or \<open>innerText\<close> assigned), or the
  markup KaTeX wrote.
\<close>

datatype content = Text string | Markup string

record span =
  className :: string
  content :: content

text \<open>
  One mounted \<open>Latex\<close>: \<open>containerRef.current\<close> (\<open>None\<close> is null), the calls it has
  made to \<open>window.katex.render\<close>, and what it has passed to \<open>console.error\<close>.
\<close>

record latex_node =
  containerRef :: "span option"
  render_calls :: "(string \<times> bool) list"
  console_error :: "js_error list"

text \<open>The element \<open>Latex\<close> returns (line 60), and the node right after React mounts it.\<close>

definition Latex_span :: "latex_props \<Rightarrow> span" where
  "Latex_span p =
     \<lparr>className = (if displayMode p then ''block my-2 overflow-x-auto overflow-y-hidden'' else ''''),
      content = Text (children p)\<rparr>"

definition Latex_mounted :: "latex_props \<Rightarrow> latex_node" where
  "Latex_mounted p = \<lparr>containerRef = Some (Latex_span p), render_calls = [], console_error = []\<rparr>"

text \<open>The effect of \<open>Latex\<close> (lines 46 to 58), with its try and catch.\<close>

definition Latex_effect :: "latex_props \<Rightarrow> browser \<Rightarrow> latex_node \<Rightarrow> latex_node" where
  "Latex_effect p w n =
     (case (isLoaded p, window_katex w, containerRef n) of
        (True, Some render, Some c) \<Rightarrow>
          (let n1 = n\<lparr>render_calls := render_calls n @ [(children p, displayMode p)]\<rparr>
           in case render (children p) (displayMode p) of
                Inr out \<Rightarrow> n1\<lparr>containerRef := Some (c\<lparr>content := Markup out\<rparr>)\<rparr>
              | Inl e \<Rightarrow>
                  n1\<lparr>console_error := console_error n1 @ [e],
                     containerRef := Some (c\<lparr>content := Text (children p)\<rparr>)\<rparr>)
      | _ \<Rightarrow> n)"

section \<open>Properties\<close>

subsection \<open>Helper facts\<close>

lemma length_steps: "length steps = 5"
  by (simp add: steps_def)

lemma js_rem_nonneg: "0 \<le> a \<Longrightarrow> js_rem a b = a mod \<bar>b\<bar>"
  by (simp add: js_rem_def signed_modulo_int_def sgn_if)

lemma activeStep_nextStep:
  "activeStep (nextStep v) = js_rem (activeStep v + 1) 5"
  by (simp add: nextStep_def setActiveStep_def length_steps)

lemma nextStep_frame: "nextStep v = v\<lparr>activeStep := js_rem (activeStep v + 1) 5\<rparr>"
  by (simp add: nextStep_def setActiveStep_def length_steps)

lemma length_rows: "length (GLMVisualizer_rows v) = 5"
  by (simp add: GLMVisualizer_rows_def length_steps)

lemma rows_nth:
  "j < 5 \<Longrightarrow> GLMVisualizer_rows v ! j = step_row_of v (j, steps ! j)"
  by (simp add: GLMVisualizer_rows_def length_steps nth_enumerate_eq)

lemma rows_onClick:
  assumes "row \<in> set (GLMVisualizer_rows v)"
  shows "\<exists>j<5. row_onClick row = setActiveStep (int j)"
proof -
  from assms obtain j where j: "j < length (GLMVisualizer_rows v)" and row: "row = GLMVisualizer_rows v ! j"
    by (auto simp: in_set_conv_nth)
  from j have "j < 5" by (simp add: length_rows)
  moreover from this row have "row_onClick row = setActiveStep (int j)"
    by (simp add: rows_nth step_row_of_def)
  ultimately show ?thesis by blast
qed

lemma map_row_step: "map row_step (GLMVisualizer_rows v) = steps"
  by (simp add: GLMVisualizer_rows_def step_row_of_def list_eq_iff_nth_eq nth_enumerate_eq)

subsection \<open>The step cursor\<close>

text \<open>
  C1. From every step index 0 to 4, the handler of the "next" button sets the active
  step to the index plus one modulo five; from the last step, 4, it goes to 0.
\<close>

theorem nextStep_advances:
  assumes "0 \<le> activeStep v" and "activeStep v \<le> 4"
  shows "activeStep (button_onClick v) = (activeStep v + 1) mod 5
       \<and> (activeStep v = 4 \<longrightarrow> activeStep (button_onClick v) = 0)"
  using assms by (simp add: button_onClick_def activeStep_nextStep js_rem_nonneg)

theorem nextStep_advances_witness:
  "0 \<le> activeStep \<lparr>activeStep = 4, isKaTeXLoaded = False\<rparr>
   \<and> activeStep \<lparr>activeStep = 4, isKaTeXLoaded = False\<rparr> \<le> 4
   \<and> activeStep (button_onClick \<lparr>activeStep = 4, isKaTeXLoaded = False\<rparr>) = 0"
  using nextStep_advances [of "\<lparr>activeStep = 4, isKaTeXLoaded = False\<rparr>"] by simp

text \<open>
  C3. Every state reached from the initial one by clicks on the button and on rows has
  its active step between 0 and 4.
\<close>

theorem activeStep_in_bounds:
  "reachable v \<Longrightarrow> 0 \<le> activeStep v \<and> activeStep v \<le> 4"
proof (induction rule: reachable.induct)
  case init
  show ?case by (simp add: GLMVisualizer_init_def)
next
  case (click_next v)
  then have "0 \<le> activeStep v + 1" by simp
  then have "js_rem (activeStep v + 1) 5 = (activeStep v + 1) mod 5"
    by (simp add: js_rem_nonneg)
  then show ?case
    by (simp add: button_onClick_def activeStep_nextStep)
next
  case (click_row v row)
  from rows_onClick [OF click_row.hyps(2)] obtain j where "j < 5" "row_onClick row = setActiveStep (int j)"
    by blast
  then show ?case by (simp add: setActiveStep_def)
qed

theorem activeStep_in_bounds_witness:
  "reachable (button_onClick GLMVisualizer_init)
   \<and> 0 \<le> activeStep (button_onClick GLMVisualizer_init)
   \<and> activeStep (button_onClick GLMVisualizer_init) \<le> 4"
  using activeStep_in_bounds [OF reachable.click_next [OF reachable.init]]
  by (simp add: reachable.click_next reachable.init)

text \<open>
  C4. For each of the five positions \<open>j\<close> there is a row, it shows \<open>steps ! j\<close>, and
  its click handler sets the active step to \<open>j\<close> whatever the state it is applied to.
\<close>

theorem row_onClick_selects:
  assumes "j < 5"
  shows "j < length (GLMVisualizer_rows v)
       \<and> row_step (GLMVisualizer_rows v ! j) = steps ! j
       \<and> activeStep (row_onClick (GLMVisualizer_rows v ! j) v') = int j"
  using assms by (simp add: length_rows rows_nth step_row_of_def setActiveStep_def)

theorem row_onClick_selects_witness:
  "(2::nat) < 5 \<and> activeStep (row_onClick (GLMVisualizer_rows GLMVisualizer_init ! 2) \<lparr>activeStep = 4, isKaTeXLoaded = True\<rparr>) = 2"
  using row_onClick_selects [of 2 GLMVisualizer_init "\<lparr>activeStep = 4, isKaTeXLoaded = True\<rparr>"] by simp

text \<open>
  C5. \<open>steps\<close> is a list of five descriptors with ids 1 to 5 in order, and in every
  state the rows rendered are these descriptors in this order, keyed by their ids:
  nothing in the state can add, drop or reorder them.
\<close>

theorem steps_fixed:
  "length steps = 5
   \<and> map id_step steps = [1, 2, 3, 4, 5]
   \<and> map row_step (GLMVisualizer_rows v) = steps
   \<and> map row_key (GLMVisualizer_rows v) = [1, 2, 3, 4, 5]"
proof -
  have ids: "map id_step steps = [1, 2, 3, 4, 5]"
    by (simp add: steps_def)
  have "map row_key (GLMVisualizer_rows v) = map id_step steps"
    by (simp add: GLMVisualizer_rows_def step_row_of_def list_eq_iff_nth_eq nth_enumerate_eq)
  with ids show ?thesis
    by (simp add: length_steps map_row_step)
qed

subsection \<open>The loader\<close>

text \<open>
  The guard of the loader: with \<open>window.katex\<close> defined, the effect injects nothing
  and sets the flag.
\<close>

lemma useKaTeX_effect_present:
  "window_katex w \<noteq> None \<Longrightarrow> useKaTeX_effect w v = (w, v\<lparr>isKaTeXLoaded := True\<rparr>)"
  by (simp add: useKaTeX_effect_def setIsLoaded_def)

text \<open>
  C6. The claim is that the stylesheet and the script are never loaded twice. The guard
  tests \<open>window.katex\<close>, which stays undefined until the script has been fetched and
  run: when the component is mounted a second time before that, the effect appends a
  second link and a second script to \<open>document.head\<close>.
\<close>

theorem useKaTeX_effect_twice:
  "map is_ScriptEl (document_head (fst (GLMVisualizer_mount (fst (GLMVisualizer_mount
      \<lparr>window_katex = None, document_head = []\<rparr>)))))
   = [False, True, False, True]"
  by (simp add: GLMVisualizer_mount_def useKaTeX_effect_def Let_def)

text \<open>
  C7. When the loader injects, it appends the same two elements whatever the browser
  and component state: a stylesheet link and a script at the pinned katex 0.16.9
  addresses on cdn.jsdelivr.net, each with its integrity hash.
\<close>

theorem useKaTeX_effect_fixed_urls:
  assumes "window_katex w = None"
  shows "document_head (fst (useKaTeX_effect w v)) = document_head w @
     [LinkEl ''stylesheet''
        ''https://cdn.jsdelivr.net/npm/katex@0.16.9/dist/katex.min.css''
        ''sha384-n8MVd4RsNIU0tAv4ct0nTaAbDJwPJzDEaqSD1odI+WdtXRGWt2kTvGFasHpSy3SV''
        ''anonymous'',
      ScriptEl
        ''https://cdn.jsdelivr.net/npm/katex@0.16.9/dist/katex.min.js''
        ''sha384-XjKyOOlGwcjNTAIQHIpgOno0Hl1YQqzUOEleOLALmuqehneUG+vnGctmUb0ZY0l8''
        ''anonymous''
        (setIsLoaded True)]"
  using assms by (simp add: useKaTeX_effect_def Let_def)

theorem useKaTeX_effect_fixed_urls_witness:
  "window_katex \<lparr>window_katex = None, document_head = []\<rparr> = None
   \<and> map href (filter is_LinkEl (document_head (fst (useKaTeX_effect
         \<lparr>window_katex = None, document_head = []\<rparr> GLMVisualizer_init))))
       = [''https://cdn.jsdelivr.net/npm/katex@0.16.9/dist/katex.min.css'']
   \<and> map src (filter is_ScriptEl (document_head (fst (useKaTeX_effect
         \<lparr>window_katex = None, document_head = []\<rparr> GLMVisualizer_init))))
       = [''https://cdn.jsdelivr.net/npm/katex@0.16.9/dist/katex.min.js'']"
  using useKaTeX_effect_fixed_urls [of "\<lparr>window_katex = None, document_head = []\<rparr>" GLMVisualizer_init]
  by simp

text \<open>
  C8. From every step index 0 to 4, five clicks on the "next" button give back the
  state they started from.
\<close>

theorem nextStep_five_times:
  assumes "0 \<le> activeStep v" and "activeStep v \<le> 4"
  shows "(button_onClick ^^ 5) v = v"
proof -
  from assms have "activeStep v = 0 \<or> activeStep v = 1 \<or> activeStep v = 2
      \<or> activeStep v = 3 \<or> activeStep v = 4"
    by arith
  then show ?thesis
    by (auto simp: button_onClick_def nextStep_frame js_rem_nonneg eval_nat_numeral)
qed

theorem nextStep_five_times_witness:
  "0 \<le> activeStep \<lparr>activeStep = 3, isKaTeXLoaded = True\<rparr>
   \<and> activeStep \<lparr>activeStep = 3, isKaTeXLoaded = True\<rparr> \<le> 4
   \<and> (button_onClick ^^ 5) \<lparr>activeStep = 3, isKaTeXLoaded = True\<rparr>
       = \<lparr>activeStep = 3, isKaTeXLoaded = True\<rparr>"
  using nextStep_five_times [of "\<lparr>activeStep = 3, isKaTeXLoaded = True\<rparr>"] by simp

subsection \<open>Latex\<close>

text \<open>
  C2. When \<open>window.katex.render\<close> throws on the string, the effect of \<open>Latex\<close>
  returns normally, has logged the thrown value, and the span holds the string itself
  as plain text.
\<close>

theorem Latex_effect_render_throws:
  assumes "isLoaded p" and "window_katex w = Some render" and "containerRef n = Some c"
    and "render (children p) (displayMode p) = Inl e"
  shows "containerRef (Latex_effect p w n) = Some (c\<lparr>content := Text (children p)\<rparr>)
       \<and> console_error (Latex_effect p w n) = console_error n @ [e]"
  using assms by (simp add: Latex_effect_def Let_def)

theorem Latex_effect_render_throws_witness:
  "containerRef (Latex_effect \<lparr>children = ''x^'', displayMode = False, isLoaded = True\<rparr>
      \<lparr>window_katex = Some (\<lambda>m d. Inl (Error ''ParseError'')), document_head = []\<rparr>
      (Latex_mounted \<lparr>children = ''x^'', displayMode = False, isLoaded = True\<rparr>))
   = Some \<lparr>className = [], content = Text ''x^''\<rparr>"
  using Latex_effect_render_throws [of "\<lparr>children = ''x^'', displayMode = False, isLoaded = True\<rparr>"
      "\<lparr>window_katex = Some (\<lambda>m d. Inl (Error ''ParseError'')), document_head = []\<rparr>"
      "\<lambda>m d. Inl (Error ''ParseError'')"
      "Latex_mounted \<lparr>children = ''x^'', displayMode = False, isLoaded = True\<rparr>"
      "\<lparr>className = [], content = Text ''x^''\<rparr>" "Error ''ParseError''"]
  by (simp add: Latex_mounted_def Latex_span_def)

text \<open>
  C9. While the flag is false or \<open>window.katex\<close> is undefined, the effect of
  \<open>Latex\<close> changes nothing: a freshly mounted \<open>Latex\<close> has made no render call and
  its span holds the source string. The span of a freshly mounted \<open>Latex\<close> holds
  KaTeX markup after the effect only if the flag was true and the library defined.
\<close>

theorem Latex_effect_not_loaded:
  "(\<not> isLoaded p \<or> window_katex w = None \<longrightarrow>
      Latex_effect p w n = n
      \<and> render_calls (Latex_effect p w (Latex_mounted p)) = []
      \<and> containerRef (Latex_effect p w (Latex_mounted p))
          = Some (Latex_span p\<lparr>content := Text (children p)\<rparr>))
   \<and> (\<forall>c out. containerRef (Latex_effect p w (Latex_mounted p)) = Some c \<and> content c = Markup out
         \<longrightarrow> isLoaded p \<and> window_katex w \<noteq> None)"
  by (auto simp: Latex_effect_def Latex_mounted_def Latex_span_def Let_def
      split: bool.splits option.splits sum.splits)

theorem Latex_effect_not_loaded_witness:
  "\<not> isLoaded \<lparr>children = ''z'', displayMode = True, isLoaded = False\<rparr>
   \<and> render_calls (Latex_effect \<lparr>children = ''z'', displayMode = True, isLoaded = False\<rparr>
      \<lparr>window_katex = Some (\<lambda>m d. Inr m), document_head = []\<rparr>
      (Latex_mounted \<lparr>children = ''z'', displayMode = True, isLoaded = False\<rparr>)) = []
   \<and> containerRef (Latex_effect \<lparr>children = ''z'', displayMode = True, isLoaded = False\<rparr>
      \<lparr>window_katex = Some (\<lambda>m d. Inr m), document_head = []\<rparr>
      (Latex_mounted \<lparr>children = ''z'', displayMode = True, isLoaded = False\<rparr>))
     = Some \<lparr>className = ''block my-2 overflow-x-auto overflow-y-hidden'', content = Text ''z''\<rparr>"
  using Latex_effect_not_loaded [of "\<lparr>children = ''z'', displayMode = True, isLoaded = False\<rparr>"
      "\<lparr>window_katex = Some (\<lambda>m d. Inr m), document_head = []\<rparr>"]
  by (simp add: Latex_mounted_def Latex_span_def)

subsection \<open>Frame\<close>

text \<open>
  C10. The handler of the button and the handler of every rendered row return the
  state with only \<open>activeStep\<close> changed, and the descriptors and the \<open>Latex\<close> props
  of the rows rendered afterwards are those rendered before.
\<close>

theorem handlers_frame:
  "button_onClick v = v\<lparr>activeStep := activeStep (button_onClick v)\<rparr>
   \<and> map row_step (GLMVisualizer_rows (button_onClick v)) = map row_step (GLMVisualizer_rows v)
   \<and> map row_latex (GLMVisualizer_rows (button_onClick v)) = map row_latex (GLMVisualizer_rows v)
   \<and> (\<forall>row \<in> set (GLMVisualizer_rows v).
        row_onClick row v = v\<lparr>activeStep := activeStep (row_onClick row v)\<rparr>
        \<and> map row_step (GLMVisualizer_rows (row_onClick row v)) = map row_step (GLMVisualizer_rows v)
        \<and> map row_latex (GLMVisualizer_rows (row_onClick row v)) = map row_latex (GLMVisualizer_rows v))"
proof -
  have latex: "map row_latex (GLMVisualizer_rows (u\<lparr>activeStep := k\<rparr>)) = map row_latex (GLMVisualizer_rows u)"
    for u k
    by (simp add: GLMVisualizer_rows_def step_row_of_def list_eq_iff_nth_eq nth_enumerate_eq)
  have btn: "button_onClick v = v\<lparr>activeStep := js_rem (activeStep v + 1) 5\<rparr>"
    by (simp add: button_onClick_def nextStep_frame)
  have row: "row_onClick row v = v\<lparr>activeStep := activeStep (row_onClick row v)\<rparr>
        \<and> map row_latex (GLMVisualizer_rows (row_onClick row v)) = map row_latex (GLMVisualizer_rows v)"
    if "row \<in> set (GLMVisualizer_rows v)" for row
  proof -
    from rows_onClick [OF that] obtain j where "row_onClick row = setActiveStep (int j)"
      by blast
    then show ?thesis by (simp add: setActiveStep_def latex)
  qed
  from btn row show ?thesis
    by (simp add: map_row_step latex)
qed

theorem handlers_frame_witness:
  "GLMVisualizer_rows GLMVisualizer_init ! 3 \<in> set (GLMVisualizer_rows GLMVisualizer_init)
   \<and> isKaTeXLoaded (row_onClick (GLMVisualizer_rows GLMVisualizer_init ! 3) GLMVisualizer_init)
       = isKaTeXLoaded GLMVisualizer_init
   \<and> isKaTeXLoaded (button_onClick GLMVisualizer_init) = isKaTeXLoaded GLMVisualizer_init"
proof -
  have mem: "GLMVisualizer_rows GLMVisualizer_init ! 3 \<in> set (GLMVisualizer_rows GLMVisualizer_init)"
    by (simp add: length_rows)
  from handlers_frame [of GLMVisualizer_init] mem
  have "button_onClick GLMVisualizer_init
          = GLMVisualizer_init\<lparr>activeStep := activeStep (button_onClick GLMVisualizer_init)\<rparr>"
    and "row_onClick (GLMVisualizer_rows GLMVisualizer_init ! 3) GLMVisualizer_init
          = GLMVisualizer_init\<lparr>activeStep :=
              activeStep (row_onClick (GLMVisualizer_rows GLMVisualizer_init ! 3) GLMVisualizer_init)\<rparr>"
    by blast+
  then have "isKaTeXLoaded (button_onClick GLMVisualizer_init) = isKaTeXLoaded GLMVisualizer_init"
    and "isKaTeXLoaded (row_onClick (GLMVisualizer_rows GLMVisualizer_init ! 3) GLMVisualizer_init)
       = isKaTeXLoaded GLMVisualizer_init"
    by (metis visualizer.select_convs(2) visualizer.surjective visualizer.update_convs(1))+
  with mem show ?thesis by simp
qed

end
